theory Spec2Isabelle
  imports Complex_Main "HOL-Library.AList"
begin

section \<open>An in-memory key-value server with expiring keys\<close>

text \<open>
  A shallow embedding of \<^verbatim>\<open>src/redis_server_lab2.py\<close> (class \<^verbatim>\<open>RedisServer\<close>).
  Conventions of the model:
  \<^item> A Python \<^verbatim>\<open>dict\<close> is an association list in insertion order: \<^verbatim>\<open>d[k] = v\<close> replaces
    the value of an existing key in place and appends a new key at the end
    (\<open>AList.update\<close>), \<^verbatim>\<open>del d[k]\<close> removes the key (\<open>AList.delete\<close>), \<^verbatim>\<open>k in d\<close> is
    \<open>dict_has\<close>, \<^verbatim>\<open>d.keys()\<close> is \<open>map fst\<close>.
  \<^item> The floats returned by \<^verbatim>\<open>time.time()\<close> are real numbers; rounding of float
    arithmetic is not represented. A handler receives the clock reading \<open>now\<close> as an
    argument, and every \<^verbatim>\<open>time.time()\<close> call made while one command runs yields that
    same reading.
  \<^item> A Python \<^verbatim>\<open>str\<close> is a \<open>string\<close>; the characters are ASCII code points, so
    \<^verbatim>\<open>upper\<close>, \<^verbatim>\<open>strip\<close>, \<^verbatim>\<open>split\<close> and \<^verbatim>\<open>int\<close> are given for ASCII input.
  \<^item> A handler returns its reply together with the server state it leaves behind.
  \<^item> Methods keep their names without the leading underscore.
\<close>

subsection \<open>Characters and strings\<close>

definition CR :: char where
  "CR = CHR 0x0D"

definition LF :: char where
  "LF = CHR 0x0A"

definition CRLF :: string where
  "CRLF = [CR, LF]"

text \<open>\<^verbatim>\<open>str.isspace\<close> on ASCII: tab, line feed, vertical tab, form feed, carriage return,
  the four separators 0x1C..0x1F and the blank.\<close>

definition is_space :: "char \<Rightarrow> bool" where
  "is_space c = (let n = (of_char c :: nat) in (9 \<le> n \<and> n \<le> 13) \<or> (28 \<le> n \<and> n \<le> 32))"

text \<open>\<^verbatim>\<open>s.strip()\<close>: leading and trailing white space removed.\<close>

definition strip :: "string \<Rightarrow> string" where
  "strip s = rev (dropWhile is_space (rev (dropWhile is_space s)))"

text \<open>\<^verbatim>\<open>s.split()\<close>: the maximal runs of characters that are not white space, in order.
  The first argument is the token being read, reversed.\<close>

fun split_acc :: "string \<Rightarrow> string \<Rightarrow> string list" where
  "split_acc cur [] = (if cur = [] then [] else [rev cur])"
| "split_acc cur (c # cs) =
     (if is_space c
      then (if cur = [] then split_acc [] cs else rev cur # split_acc [] cs)
      else split_acc (c # cur) cs)"

definition split_ws :: "string \<Rightarrow> string list" where
  "split_ws s = split_acc [] s"

text \<open>\<^verbatim>\<open>' '.join(xs)\<close>.\<close>

fun join_sp :: "string list \<Rightarrow> string" where
  "join_sp [] = []"
| "join_sp [x] = x"
| "join_sp (x # y # ys) = x @ CHR '' '' # join_sp (y # ys)"

text \<open>\<^verbatim>\<open>s.upper()\<close> on ASCII: the letters a..z move to A..Z.\<close>

definition upper_char :: "char \<Rightarrow> char" where
  "upper_char c =
     (let n = (of_char c :: nat) in if 97 \<le> n \<and> n \<le> 122 then char_of (n - 32) else c)"

definition upper :: "string \<Rightarrow> string" where
  "upper s = map upper_char s"

text \<open>\<^verbatim>\<open>str(n)\<close> for an integer: decimal digits, a minus sign for a negative number.\<close>

definition digit_char :: "nat \<Rightarrow> char" where
  "digit_char d = char_of (48 + d)"

fun str_nat :: "nat \<Rightarrow> string" where
  "str_nat n = (if n < 10 then [digit_char n] else str_nat (n div 10) @ [digit_char (n mod 10)])"

declare str_nat.simps [simp del]

definition str_int :: "int \<Rightarrow> string" where
  "str_int i = (if i < 0 then CHR ''-'' # str_nat (nat (- i)) else str_nat (nat i))"

text \<open>\<^verbatim>\<open>int(s)\<close> for a string: white space around the literal is ignored, one sign may
  lead, then decimal digits, where single underscores may stand between digits.
  \<open>None\<close> is the \<^verbatim>\<open>ValueError\<close>.\<close>

definition is_digit :: "char \<Rightarrow> bool" where
  "is_digit c = (let n = (of_char c :: nat) in 48 \<le> n \<and> n \<le> 57)"

definition digit_val :: "char \<Rightarrow> nat" where
  "digit_val c = of_char c - 48"

fun parse_digits :: "nat \<Rightarrow> string \<Rightarrow> nat option" where
  "parse_digits acc [] = Some acc"
| "parse_digits acc [c] = (if is_digit c then Some (acc * 10 + digit_val c) else None)"
| "parse_digits acc (c # d # ds) =
     (if is_digit c then parse_digits (acc * 10 + digit_val c) (d # ds)
      else if c = CHR ''_'' \<and> is_digit d then parse_digits (acc * 10 + digit_val d) ds
      else None)"

definition parse_unsigned :: "string \<Rightarrow> nat option" where
  "parse_unsigned s =
     (case s of [] \<Rightarrow> None
      | c # cs \<Rightarrow> if is_digit c then parse_digits (digit_val c) cs else None)"

definition py_int :: "string \<Rightarrow> int option" where
  "py_int s =
     (case strip s of [] \<Rightarrow> None
      | c # cs \<Rightarrow>
          if c = CHR ''-'' then map_option (\<lambda>n. - int n) (parse_unsigned cs)
          else if c = CHR ''+'' then map_option int (parse_unsigned cs)
          else map_option int (parse_unsigned (c # cs)))"

text \<open>\<^verbatim>\<open>int(x)\<close> for a float: truncation towards zero.\<close>

definition trunc :: "real \<Rightarrow> int" where
  "trunc x = (if x < 0 then \<lceil>x\<rceil> else \<lfloor>x\<rfloor>)"

subsection \<open>The server state\<close>

type_synonym 'v dict = "(string \<times> 'v) list"

definition dict_has :: "'v dict \<Rightarrow> string \<Rightarrow> bool" where
  "dict_has d k = (map_of d k \<noteq> None)"

text \<open>\<^verbatim>\<open>if key in d: del d[key]\<close>.\<close>

definition dict_discard :: "'v dict \<Rightarrow> string \<Rightarrow> 'v dict" where
  "dict_discard d k = (if dict_has d k then AList.delete k d else d)"

record server =
  store :: "string dict"
  expiry_times :: "real dict"
  connected_clients :: int
  total_commands :: int

text \<open>The state \<^verbatim>\<open>__init__\<close> builds.\<close>

definition init_server :: server where
  "init_server = \<lparr>store = [], expiry_times = [], connected_clients = 0, total_commands = 0\<rparr>"

definition is_expired :: "server \<Rightarrow> real \<Rightarrow> string \<Rightarrow> bool" where
  "is_expired s now key =
     (case map_of (expiry_times s) key of None \<Rightarrow> False | Some t \<Rightarrow> now > t)"

text \<open>The two guarded deletions that \<^verbatim>\<open>_cmd_get\<close> and the sweeper both perform.\<close>

definition purge :: "string \<Rightarrow> server \<Rightarrow> server" where
  "purge key s =
     s\<lparr>store := dict_discard (store s) key,
       expiry_times := dict_discard (expiry_times s) key\<rparr>"

text \<open>One pass of the loop body of \<^verbatim>\<open>_cleanup_expired_keys\<close>, without the sleep.\<close>

definition cleanup_expired_keys :: "server \<Rightarrow> real \<Rightarrow> server" where
  "cleanup_expired_keys s current_time =
     (let expired_keys = map fst (filter (\<lambda>(key, expiry). current_time > expiry) (expiry_times s))
      in fold purge expired_keys s)"

subsection \<open>Command implementations\<close>

definition wrong_args :: "string \<Rightarrow> string" where
  "wrong_args cmd = ''-ERR wrong number of arguments for '' @ [CHR 0x27] @ cmd @ [CHR 0x27] @ '' command'' @ CRLF"

definition null_bulk :: string where
  "null_bulk = ''$-1'' @ CRLF"

definition bulk :: "string \<Rightarrow> string" where
  "bulk v = ''$'' @ str_int (int (length v)) @ CRLF @ v @ CRLF"

definition integer_reply :: "int \<Rightarrow> string" where
  "integer_reply n = '':'' @ str_int n @ CRLF"

definition cmd_set :: "server \<Rightarrow> string list \<Rightarrow> string \<times> server" where
  "cmd_set s args =
     (case args of
        key # v # vs \<Rightarrow>
          (let s1 = s\<lparr>store := AList.update key (join_sp (v # vs)) (store s)\<rparr>;
               s2 = (if dict_has (expiry_times s1) key
                     then s1\<lparr>expiry_times := AList.delete key (expiry_times s1)\<rparr> else s1)
           in (''+OK'' @ CRLF, s2))
      | _ \<Rightarrow> (wrong_args ''set'', s))"

definition cmd_get :: "server \<Rightarrow> real \<Rightarrow> string list \<Rightarrow> string \<times> server" where
  "cmd_get s now args =
     (case args of
        [key] \<Rightarrow>
          (case map_of (store s) key of
             None \<Rightarrow> (null_bulk, if is_expired s now key then purge key s else s)
           | Some v \<Rightarrow>
               if is_expired s now key then (null_bulk, purge key s)
               else (bulk v, s))
      | _ \<Rightarrow> (wrong_args ''get'', s))"

text \<open>The loop of \<^verbatim>\<open>_cmd_del\<close>: the state and the running count.\<close>

fun del_loop :: "server \<Rightarrow> int \<Rightarrow> string list \<Rightarrow> server \<times> int" where
  "del_loop s deleted_count [] = (s, deleted_count)"
| "del_loop s deleted_count (key # keys) =
     (let (s1, n1) = (if dict_has (store s) key
                      then (s\<lparr>store := AList.delete key (store s)\<rparr>, deleted_count + 1)
                      else (s, deleted_count));
          s2 = (if dict_has (expiry_times s1) key
                then s1\<lparr>expiry_times := AList.delete key (expiry_times s1)\<rparr> else s1)
      in del_loop s2 n1 keys)"

definition cmd_del :: "server \<Rightarrow> string list \<Rightarrow> string \<times> server" where
  "cmd_del s args =
     (if length args < 1 then (wrong_args ''del'', s)
      else (let (s1, deleted_count) = del_loop s 0 args in (integer_reply deleted_count, s1)))"

definition cmd_expire :: "server \<Rightarrow> real \<Rightarrow> string list \<Rightarrow> string \<times> server" where
  "cmd_expire s now args =
     (case args of
        [key, seconds_str] \<Rightarrow>
          (case py_int seconds_str of
             None \<Rightarrow> (''-ERR value is not an integer or out of range'' @ CRLF, s)
           | Some seconds \<Rightarrow>
               if \<not> dict_has (store s) key \<or> is_expired s now key then (integer_reply 0, s)
               else (integer_reply 1,
                     s\<lparr>expiry_times := AList.update key (now + real_of_int seconds) (expiry_times s)\<rparr>))
      | _ \<Rightarrow> (wrong_args ''expire'', s))"

definition cmd_ttl :: "server \<Rightarrow> real \<Rightarrow> string list \<Rightarrow> string \<times> server" where
  "cmd_ttl s now args =
     (case args of
        [key] \<Rightarrow>
          if \<not> dict_has (store s) key \<or> is_expired s now key then (integer_reply (- 2), s)
          else (case map_of (expiry_times s) key of
                  None \<Rightarrow> (integer_reply (- 1), s)
                | Some t \<Rightarrow> (let remaining = trunc (t - now) in (integer_reply (max 0 remaining), s)))
      | _ \<Rightarrow> (wrong_args ''ttl'', s))"

definition cmd_pttl :: "server \<Rightarrow> real \<Rightarrow> string list \<Rightarrow> string \<times> server" where
  "cmd_pttl s now args =
     (case args of
        [key] \<Rightarrow>
          if \<not> dict_has (store s) key \<or> is_expired s now key then (integer_reply (- 2), s)
          else (case map_of (expiry_times s) key of
                  None \<Rightarrow> (integer_reply (- 1), s)
                | Some t \<Rightarrow>
                    (let remaining_ms = trunc ((t - now) * 1000)
                     in (integer_reply (max 0 remaining_ms), s)))
      | _ \<Rightarrow> (wrong_args ''pttl'', s))"

text \<open>The keys \<^verbatim>\<open>_cmd_keys\<close> collects in \<^verbatim>\<open>current_keys\<close>, and the array it renders.\<close>

definition current_keys :: "server \<Rightarrow> real \<Rightarrow> string list" where
  "current_keys s now = filter (\<lambda>key. \<not> is_expired s now key) (map fst (store s))"

definition array_reply :: "string list \<Rightarrow> string" where
  "array_reply ks =
     (if ks = [] then ''*0'' @ CRLF
      else ''*'' @ str_int (int (length ks)) @ CRLF @ concat (map bulk ks))"

definition cmd_keys :: "server \<Rightarrow> real \<Rightarrow> string list \<Rightarrow> string \<times> server" where
  "cmd_keys s now args = (array_reply (current_keys s now), s)"

fun exists_loop :: "server \<Rightarrow> real \<Rightarrow> int \<Rightarrow> string list \<Rightarrow> int" where
  "exists_loop s now count [] = count"
| "exists_loop s now count (key # keys) =
     exists_loop s now
       (if dict_has (store s) key \<and> \<not> is_expired s now key then count + 1 else count) keys"

definition cmd_exists :: "server \<Rightarrow> real \<Rightarrow> string list \<Rightarrow> string \<times> server" where
  "cmd_exists s now args =
     (if length args < 1 then (wrong_args ''exists'', s)
      else (integer_reply (exists_loop s now 0 args), s))"

definition cmd_type :: "server \<Rightarrow> real \<Rightarrow> string list \<Rightarrow> string \<times> server" where
  "cmd_type s now args =
     (case args of
        [key] \<Rightarrow>
          if \<not> dict_has (store s) key \<or> is_expired s now key then (''+none'' @ CRLF, s)
          else (''+string'' @ CRLF, s)
      | _ \<Rightarrow> (wrong_args ''type'', s))"

definition cmd_flushall :: "server \<Rightarrow> string \<times> server" where
  "cmd_flushall s = (''+OK'' @ CRLF, s\<lparr>store := [], expiry_times := []\<rparr>)"

definition cmd_info :: "server \<Rightarrow> real \<Rightarrow> string \<times> server" where
  "cmd_info s now =
     (let uptime = trunc now;
          info = ''# Server'' @ [LF]
            @ ''redis_version:1.0.0-custom'' @ [LF]
            @ ''uptime_in_seconds:'' @ str_int uptime @ [LF]
            @ ''connected_clients:'' @ str_int (connected_clients s) @ [LF]
            @ ''total_commands_processed:'' @ str_int (total_commands s) @ [LF]
            @ [LF]
            @ ''# Memory'' @ [LF]
            @ ''used_memory:'' @ str_int (int (length (store s))) @ [LF]
            @ [LF]
            @ ''# Stats'' @ [LF]
            @ ''total_connections_received:'' @ str_int (total_commands s) @ [LF]
            @ ''keyspace_hits:0'' @ [LF]
            @ ''keyspace_misses:0'' @ [LF]
      in (bulk info, s))"

subsection \<open>The dispatcher\<close>

text \<open>\<^verbatim>\<open>_process_command\<close>. No handler of the model raises, so the
  \<^verbatim>\<open>except Exception\<close> branch has no counterpart.\<close>

definition process_command :: "server \<Rightarrow> real \<Rightarrow> string \<Rightarrow> string \<times> server" where
  "process_command s0 now command_line =
     (let s = s0\<lparr>total_commands := total_commands s0 + 1\<rparr> in
      case split_ws command_line of
        [] \<Rightarrow> (''-ERR empty command'' @ CRLF, s)
      | p # args \<Rightarrow>
          (let command = upper p in
           if command = ''SET'' then cmd_set s args
           else if command = ''GET'' then cmd_get s now args
           else if command = ''DEL'' then cmd_del s args
           else if command = ''EXPIRE'' then cmd_expire s now args
           else if command = ''TTL'' then cmd_ttl s now args
           else if command = ''PTTL'' then cmd_pttl s now args
           else if command = ''PING'' then (''+PONG'' @ CRLF, s)
           else if command = ''ECHO''
             then (if args \<noteq> [] then ''+'' @ join_sp args @ CRLF else ''+'' @ CRLF, s)
           else if command = ''KEYS'' then cmd_keys s now args
           else if command = ''EXISTS'' then cmd_exists s now args
           else if command = ''TYPE'' then cmd_type s now args
           else if command = ''FLUSHALL'' then cmd_flushall s
           else if command = ''INFO'' then cmd_info s now
           else (''-ERR unknown command '' @ [CHR 0x27] @ command @ [CHR 0x27] @ CRLF, s)))"

subsection \<open>The connection session\<close>





text \<open>Entering and leaving \<^verbatim>\<open>_handle_client\<close>.\<close>

definition client_enter :: "server \<Rightarrow> server" where
  "client_enter s = s\<lparr>connected_clients := connected_clients s + 1\<rparr>"

definition client_leave :: "server \<Rightarrow> server" where
  "client_leave s = s\<lparr>connected_clients := connected_clients s - 1\<rparr>"

subsection \<open>Notions used to state the properties\<close>

definition dict_keys :: "'v dict \<Rightarrow> string set" where
  "dict_keys d = set (map fst d)"

text \<open>Every key with an expiry also has a value.\<close>

definition expiry_subset :: "server \<Rightarrow> bool" where
  "expiry_subset s = (dict_keys (expiry_times s) \<subseteq> dict_keys (store s))"

text \<open>The states the server can be in: the initial one, and what commands, sweeper
  passes and connections make of a reachable state, at any clock reading.\<close>

inductive reachable :: "server \<Rightarrow> bool" where
  initial: "reachable init_server"
| command: "reachable s \<Longrightarrow> reachable (snd (process_command s now command_line))"
| sweep: "reachable s \<Longrightarrow> reachable (cleanup_expired_keys s now)"
| enter: "reachable s \<Longrightarrow> reachable (client_enter s)"
| leave: "reachable s \<Longrightarrow> reachable (client_leave s)"

text \<open>A key is live when it has a value and is not expired: the test of \<^verbatim>\<open>_cmd_exists\<close>.\<close>

definition live :: "server \<Rightarrow> real \<Rightarrow> string \<Rightarrow> bool" where
  "live s now key = (dict_has (store s) key \<and> \<not> is_expired s now key)"




text \<open>Example states: a key whose expiry, 5, lies in the past of the readings used below;
  a key without expiry; a key with 2.5 seconds left at reading 10; and the state after a
  set and an expire.\<close>

definition stale_server :: server where
  "stale_server = \<lparr>store = [(''k'', ''v'')], expiry_times = [(''k'', 5)], connected_clients = 0,
            total_commands = 0\<rparr>"



definition after_expire :: server where
  "after_expire =
     snd (process_command (snd (process_command init_server 0 ''SET a 1'')) 1 ''EXPIRE a 5'')"


section \<open>Basic facts\<close>

subsection \<open>Dictionaries\<close>

lemma dict_has_keys: "dict_has d k \<longleftrightarrow> k \<in> dict_keys d"
  by (simp add: dict_has_def dict_keys_def map_of_eq_None_iff)

lemma dict_keys_delete: "dict_keys (AList.delete k d) = dict_keys d - {k}"
  by (simp add: dict_keys_def delete_keys)

lemma dict_keys_update: "dict_keys (AList.update k v d) = insert k (dict_keys d)"
  by (auto simp: dict_keys_def update_keys)

lemma dict_discard_delete: "dict_discard d k = AList.delete k d"
  by (simp add: dict_discard_def dict_has_keys dict_keys_def)

lemma dict_keys_discard: "dict_keys (dict_discard d k) = dict_keys d - {k}"
  by (simp add: dict_discard_delete dict_keys_delete)

subsection \<open>The invariant is kept by every operation\<close>

lemma store_purge: "store (purge k s) = AList.delete k (store s)"
  by (simp add: purge_def dict_discard_delete)

lemma expiry_purge: "expiry_times (purge k s) = AList.delete k (expiry_times s)"
  by (simp add: purge_def dict_discard_delete)

lemma expiry_subset_purge: "expiry_subset s \<Longrightarrow> expiry_subset (purge k s)"
  by (auto simp: expiry_subset_def store_purge expiry_purge dict_keys_delete)

lemma expiry_subset_fold_purge: "expiry_subset s \<Longrightarrow> expiry_subset (fold purge ks s)"
  by (induction ks arbitrary: s) (simp_all add: expiry_subset_purge)

lemma expiry_subset_cleanup: "expiry_subset s \<Longrightarrow> expiry_subset (cleanup_expired_keys s now)"
  by (simp add: cleanup_expired_keys_def expiry_subset_fold_purge)

lemma expiry_subset_counters [simp]:
  "expiry_subset (s\<lparr>total_commands := n\<rparr>) = expiry_subset s"
  "expiry_subset (s\<lparr>connected_clients := m\<rparr>) = expiry_subset s"
  by (simp_all add: expiry_subset_def)

lemma expiry_subset_init: "expiry_subset init_server"
  by (simp add: expiry_subset_def init_server_def dict_keys_def)

lemma expiry_subset_set: "expiry_subset s \<Longrightarrow> expiry_subset (snd (cmd_set s args))"
  by (auto simp: cmd_set_def expiry_subset_def dict_keys_update dict_keys_delete Let_def
      dict_has_keys split: list.splits)

lemma expiry_subset_get: "expiry_subset s \<Longrightarrow> expiry_subset (snd (cmd_get s now args))"
  by (auto simp: cmd_get_def expiry_subset_purge split: list.splits option.splits)

lemma del_loop_store:
  "store (fst (del_loop s n ks)) = fold AList.delete ks (store s)"
  by (induction ks arbitrary: s n) (auto simp: Let_def dict_has_keys dict_keys_def)

lemma del_loop_expiry:
  "expiry_times (fst (del_loop s n ks)) = fold AList.delete ks (expiry_times s)"
  by (induction ks arbitrary: s n) (auto simp: Let_def dict_has_keys dict_keys_def)


lemma dict_keys_fold_delete: "dict_keys (fold AList.delete ks d) = dict_keys d - set ks"
  by (induction ks arbitrary: d) (auto simp: dict_keys_delete)

lemma expiry_subset_del_loop: "expiry_subset s \<Longrightarrow> expiry_subset (fst (del_loop s n ks))"
  by (auto simp: expiry_subset_def del_loop_store del_loop_expiry dict_keys_fold_delete)

lemma expiry_subset_del: "expiry_subset s \<Longrightarrow> expiry_subset (snd (cmd_del s args))"
  using expiry_subset_del_loop [of s 0 args]
  by (auto simp: cmd_del_def split: prod.splits)

lemma expiry_subset_expire: "expiry_subset s \<Longrightarrow> expiry_subset (snd (cmd_expire s now args))"
  by (auto simp: cmd_expire_def expiry_subset_def dict_keys_update dict_has_keys
      split: list.splits option.splits)

lemma snd_cmd_ttl [simp]: "snd (cmd_ttl s now args) = s"
  by (simp add: cmd_ttl_def Let_def split: list.splits option.splits)

lemma snd_cmd_pttl [simp]: "snd (cmd_pttl s now args) = s"
  by (simp add: cmd_pttl_def Let_def split: list.splits option.splits)

lemma snd_cmd_keys [simp]: "snd (cmd_keys s now args) = s"
  by (simp add: cmd_keys_def)

lemma snd_cmd_exists [simp]: "snd (cmd_exists s now args) = s"
  by (simp add: cmd_exists_def)

lemma snd_cmd_type [simp]: "snd (cmd_type s now args) = s"
  by (simp add: cmd_type_def split: list.splits)

lemma snd_cmd_info [simp]: "snd (cmd_info s now) = s"
  by (simp add: cmd_info_def Let_def)

lemma expiry_subset_flushall: "expiry_subset (snd (cmd_flushall s))"
  by (simp add: cmd_flushall_def expiry_subset_def dict_keys_def)

lemma expiry_subset_process:
  "expiry_subset s \<Longrightarrow> expiry_subset (snd (process_command s now cl))"
  by (simp add: process_command_def Let_def expiry_subset_set expiry_subset_get
      expiry_subset_del expiry_subset_expire expiry_subset_flushall split: list.splits)

lemma reachable_expiry_subset: "reachable s \<Longrightarrow> expiry_subset s"
  by (induction rule: reachable.induct)
    (simp_all add: expiry_subset_init expiry_subset_process expiry_subset_cleanup
      client_enter_def client_leave_def)

subsection \<open>The command counter\<close>








subsection \<open>Handlers, loops and the session\<close>

lemma not_expired_no_expiry: "\<not> dict_has (expiry_times s) k \<Longrightarrow> \<not> is_expired s now k"
  by (simp add: is_expired_def dict_has_def)

lemma dict_has_update_same: "dict_has (AList.update k v d) k"
  by (simp add: dict_has_def update_conv')

lemma dict_has_delete_same: "\<not> dict_has (AList.delete k d) k"
  by (simp add: dict_has_def delete_conv')

lemma map_of_update_same: "map_of (AList.update k v d) k = Some v"
  by (simp add: update_conv')

lemma cmd_set_state:
  "snd (cmd_set s (k # v # vs)) =
     s\<lparr>store := AList.update k (join_sp (v # vs)) (store s),
       expiry_times := AList.delete k (expiry_times s)\<rparr>"
  by (simp add: cmd_set_def Let_def dict_has_keys dict_keys_def)

lemma purge_removes:
  "\<not> dict_has (store (purge k s)) k" "\<not> dict_has (expiry_times (purge k s)) k"
  by (simp_all add: store_purge expiry_purge dict_has_delete_same)

lemma exists_loop_single:
  "exists_loop s now n [k] = (if live s now k then n + 1 else n)"
  by (simp add: live_def)

lemma exists_loop_add: "exists_loop s now n ks = n + exists_loop s now 0 ks"
proof (induction ks arbitrary: n)
  case Nil
  then show ?case by simp
next
  case (Cons k ks)
  show ?case
    using Cons.IH [of "n + 1"] Cons.IH [of n] Cons.IH [of 1] Cons.IH [of 0] by simp
qed

lemma exists_loop_count:
  "exists_loop s now 0 ks = int (length (filter (live s now) ks))"
proof (induction ks)
  case Nil
  then show ?case by simp
next
  case (Cons k ks)
  then show ?case
    using exists_loop_add [of s now 1 ks] by (simp add: live_def)
qed



lemma del_loop_step:
  "del_loop s n (key # keys) =
     del_loop (s\<lparr>store := AList.delete key (store s),
                 expiry_times := AList.delete key (expiry_times s)\<rparr>)
       (if dict_has (store s) key then n + 1 else n) keys"
  by (simp add: Let_def dict_has_keys dict_keys_def)

lemma del_loop_state:
  "fst (del_loop s n ks) =
     s\<lparr>store := fold AList.delete ks (store s),
       expiry_times := fold AList.delete ks (expiry_times s)\<rparr>"
proof (induction ks arbitrary: s n)
  case Nil
  then show ?case by simp
next
  case (Cons k ks)
  show ?case
    by (simp only: del_loop_step Cons.IH) simp
qed

lemma card_first_key:
  "card (set (k # ks) \<inter> K) = (if k \<in> K then 1 else 0) + card (set ks \<inter> (K - {k}))"
proof (cases "k \<in> K")
  case True
  have "set (k # ks) \<inter> K = insert k (set ks \<inter> (K - {k}))"
    using True by auto
  moreover have "k \<notin> set ks \<inter> (K - {k})" by simp
  moreover have "finite (set ks \<inter> (K - {k}))" by simp
  ultimately show ?thesis using True by simp
next
  case False
  then have "set (k # ks) \<inter> K = set ks \<inter> (K - {k})" by auto
  with False show ?thesis by simp
qed

lemma del_loop_count:
  "snd (del_loop s n ks) = n + int (card (set ks \<inter> dict_keys (store s)))"
proof (induction ks arbitrary: s n)
  case Nil
  then show ?case by simp
next
  case (Cons k ks)
  show ?case
    by (simp only: del_loop_step Cons.IH card_first_key [of k ks "dict_keys (store s)"])
      (simp add: dict_keys_delete dict_has_keys)
qed

lemma length_filter_remdups: "length (filter P (remdups xs)) = card (set xs \<inter> {x. P x})"
proof -
  have "length (filter P (remdups xs)) = length (remdups (filter P xs))"
    by (simp add: remdups_filter)
  also have "\<dots> = card (set (filter P xs))"
    by (simp add: length_remdups_card_conv)
  also have "set (filter P xs) = set xs \<inter> {x. P x}" by auto
  finally show ?thesis .
qed

lemma dict_keys_has: "dict_keys d = {k. dict_has d k}"
  by (auto simp: dict_has_keys)

lemma dict_has_fold_delete: "k \<in> set ks \<Longrightarrow> \<not> dict_has (fold AList.delete ks d) k"
  by (simp add: dict_has_keys dict_keys_fold_delete)


















lemma exists_loop_skip:
  "\<not> live s now k \<Longrightarrow> exists_loop s now n (removeAll k ks) = exists_loop s now n ks"
proof -
  assume nl: "\<not> live s now k"
  have "filter (live s now) (removeAll k ks) = filter (live s now) ks"
    using nl by (induction ks) auto
  then show ?thesis
    using exists_loop_add [of s now n "removeAll k ks"] exists_loop_add [of s now n ks]
    by (simp add: exists_loop_count)
qed

section \<open>The claims\<close>

text \<open>
  Claim C1, as amended. \<^verbatim>\<open>_cmd_del\<close> never reads the clock. For a non-empty argument
  list the reply is the number of distinct argument keys that are physically in the value
  map when the call starts, whether or not their expiry has passed; an absent key counts
  nothing, and a key named twice counts once. Afterwards every argument key is gone from
  both maps.
\<close>

theorem del_counts_present_keys:
  assumes "args \<noteq> []"
  shows "cmd_del s args =
           (integer_reply (int (length (filter (dict_has (store s)) (remdups args)))),
            s\<lparr>store := fold AList.delete args (store s),
              expiry_times := fold AList.delete args (expiry_times s)\<rparr>) \<and>
         (\<forall>k \<in> set args. \<not> dict_has (store (snd (cmd_del s args))) k \<and>
                          \<not> dict_has (expiry_times (snd (cmd_del s args))) k)"
proof -
  have n: "snd (del_loop s 0 args) = int (length (filter (dict_has (store s)) (remdups args)))"
    by (simp add: del_loop_count length_filter_remdups dict_keys_has)
  have eq: "cmd_del s args =
           (integer_reply (int (length (filter (dict_has (store s)) (remdups args)))),
            s\<lparr>store := fold AList.delete args (store s),
              expiry_times := fold AList.delete args (expiry_times s)\<rparr>)"
    using assms n del_loop_state [of s 0 args]
    by (cases "del_loop s 0 args") (simp add: cmd_del_def)
  show ?thesis
    by (simp add: eq dict_has_fold_delete)
qed

theorem del_counts_present_keys_witness:
  "[''k'', ''x'', ''k''] \<noteq> [] \<and>
   cmd_del stale_server [''k'', ''x'', ''k''] =
     (integer_reply 1, \<lparr>store = [], expiry_times = [], connected_clients = 0, total_commands = 0\<rparr>)"
proof -
  have a: "[''k'', ''x'', ''k''] \<noteq> ([] :: string list)" by simp
  have b: "int (length (filter (dict_has (store stale_server)) (remdups [''k'', ''x'', ''k'']))) = 1"
    by code_simp
  have c: "stale_server\<lparr>store := fold AList.delete [''k'', ''x'', ''k''] (store stale_server),
              expiry_times := fold AList.delete [''k'', ''x'', ''k''] (expiry_times stale_server)\<rparr>
           = \<lparr>store = [], expiry_times = [], connected_clients = 0, total_commands = 0\<rparr>"
    by (simp add: stale_server_def)
  from del_counts_present_keys [OF a, of stale_server] b c show ?thesis by simp
qed

text \<open>
  The claim as stated fails: the key \<open>k\<close> below is in the value map with expiry 5, so at
  time 10 it is expired and not live, yet deleting it is answered with 1, not with the
  number of live argument keys, which is 0.
\<close>

theorem del_counts_expired_key:
  "dict_has (store stale_server) ''k'' \<and> is_expired stale_server 10 ''k'' \<and> \<not> live stale_server 10 ''k'' \<and>
   fst (cmd_del stale_server [''k'']) = integer_reply 1 \<and>
   fst (cmd_del stale_server [''k'']) \<noteq> integer_reply (int (length (filter (live stale_server 10) [''k''])))"
  by code_simp

text \<open>
  Claim C2, as amended. For a key with a recorded expiry instant \<open>t\<close>, \<^verbatim>\<open>_cmd_get\<close> at time
  \<open>now\<close> leaves the state alone and returns the stored value (or the null bulk reply when
  the key has no value) as long as \<open>now \<le> t\<close>, the instant \<open>t\<close> itself included. Once
  \<open>t < now\<close> it returns the null bulk reply and removes the key from the value map and
  from the expiry map.
\<close>

theorem get_expiry_boundary:
  assumes "map_of (expiry_times s) k = Some t"
  shows "cmd_get s now [k] =
           (if now \<le> t
            then (case map_of (store s) k of None \<Rightarrow> null_bulk | Some v \<Rightarrow> bulk v, s)
            else (null_bulk, purge k s)) \<and>
         \<not> dict_has (store (purge k s)) k \<and> \<not> dict_has (expiry_times (purge k s)) k"
  using assms by (auto simp: cmd_get_def is_expired_def purge_removes split: option.splits)

theorem get_expiry_boundary_witness:
  "map_of (expiry_times stale_server) ''k'' = Some 5 \<and>
   cmd_get stale_server 5 [''k''] = (bulk ''v'', stale_server) \<and>
   cmd_get stale_server 6 [''k''] = (null_bulk, purge ''k'' stale_server) \<and>
   store (purge ''k'' stale_server) = [] \<and> expiry_times (purge ''k'' stale_server) = []"
proof -
  have a: "map_of (expiry_times stale_server) ''k'' = Some 5" by (simp add: stale_server_def)
  have b: "map_of (store stale_server) ''k'' = Some ''v''" by (simp add: stale_server_def)
  have c: "store (purge ''k'' stale_server) = []" "expiry_times (purge ''k'' stale_server) = []"
    by (simp_all add: store_purge expiry_purge stale_server_def)
  from get_expiry_boundary [OF a, of 5] get_expiry_boundary [OF a, of 6] a b c show ?thesis by simp
qed

text \<open>
  The claim as stated fails at the expiry instant itself: with expiry 5 and clock reading
  5 the instant is not strictly in the future, yet the value is returned and nothing is
  removed.
\<close>

theorem get_at_expiry_instant:
  "map_of (expiry_times stale_server) ''k'' = Some 5 \<and> \<not> ((5::real) < 5) \<and>
   fst (cmd_get stale_server 5 [''k'']) = bulk ''v'' \<and>
   fst (cmd_get stale_server 5 [''k'']) \<noteq> null_bulk \<and>
   snd (cmd_get stale_server 5 [''k'']) = stale_server"
  by (simp add: stale_server_def cmd_get_def is_expired_def bulk_def null_bulk_def)

text \<open>
  Claim C3. After \<^verbatim>\<open>_cmd_set\<close> with key \<open>k\<close> and the value words \<open>v # vs\<close> (one word \<open>v\<close>
  is the value \<open>v\<close> itself), the reply is OK, no expiry is recorded for \<open>k\<close>, a following
  \<^verbatim>\<open>_cmd_get\<close> returns the value as a bulk string and a following \<^verbatim>\<open>_cmd_ttl\<close> returns -1,
  at any clock reading and in any state the set started from.
\<close>

theorem set_then_get_and_ttl:
  "fst (cmd_set s (k # v # vs)) = ''+OK'' @ CRLF \<and>
   \<not> dict_has (expiry_times (snd (cmd_set s (k # v # vs)))) k \<and>
   cmd_get (snd (cmd_set s (k # v # vs))) now [k] =
     (bulk (join_sp (v # vs)), snd (cmd_set s (k # v # vs))) \<and>
   cmd_ttl (snd (cmd_set s (k # v # vs))) now' [k] =
     (integer_reply (- 1), snd (cmd_set s (k # v # vs))) \<and>
   join_sp [v] = v"
proof -
  let ?s1 = "snd (cmd_set s (k # v # vs))"
  have e: "\<not> dict_has (expiry_times ?s1) k"
    by (simp add: cmd_set_state dict_has_delete_same)
  have st: "map_of (store ?s1) k = Some (join_sp (v # vs))"
    by (simp add: cmd_set_state map_of_update_same)
  have ok: "fst (cmd_set s (k # v # vs)) = ''+OK'' @ CRLF"
    by (simp add: cmd_set_def Let_def)
  have g: "cmd_get ?s1 now [k] = (bulk (join_sp (v # vs)), ?s1)"
    using e st by (simp add: cmd_get_def not_expired_no_expiry)
  have t: "cmd_ttl ?s1 now' [k] = (integer_reply (- 1), ?s1)"
    using e st by (simp add: cmd_ttl_def not_expired_no_expiry dict_has_def)
  from ok e g t show ?thesis by simp
qed

theorem set_then_get_and_ttl_witness:
  "dict_has (expiry_times stale_server) ''k'' \<and>
   fst (cmd_set stale_server [''k'', ''new'', ''value'']) = ''+OK'' @ CRLF \<and>
   \<not> dict_has (expiry_times (snd (cmd_set stale_server [''k'', ''new'', ''value'']))) ''k'' \<and>
   fst (cmd_get (snd (cmd_set stale_server [''k'', ''new'', ''value''])) 10 [''k''])
     = bulk ''new value'' \<and>
   fst (cmd_ttl (snd (cmd_set stale_server [''k'', ''new'', ''value''])) 10 [''k''])
     = integer_reply (- 1)"
proof -
  have a: "dict_has (expiry_times stale_server) ''k''" by code_simp
  have b: "join_sp [''new'', ''value''] = ''new value''" by simp
  from set_then_get_and_ttl [of stale_server "''k''" "''new''" "[''value'']" 10 10] a b
  show ?thesis by simp
qed














text \<open>
  Claim C9. Every key of the expiry map is a key of the value map: this holds in the
  initial state, every command (through the dispatcher or through a handler called with
  any arguments) and every sweeper pass keep it, and so it holds in every reachable state.
\<close>

theorem expiry_keys_have_values:
  "(expiry_subset s \<longrightarrow>
      expiry_subset (snd (process_command s now cl)) \<and>
      expiry_subset (cleanup_expired_keys s now) \<and>
      expiry_subset (snd (cmd_set s args)) \<and>
      expiry_subset (snd (cmd_get s now args)) \<and>
      expiry_subset (snd (cmd_del s args)) \<and>
      expiry_subset (snd (cmd_expire s now args)) \<and>
      expiry_subset (snd (cmd_flushall s))) \<and>
   expiry_subset init_server \<and>
   (reachable s \<longrightarrow> expiry_subset s)"
  by (simp add: expiry_subset_process expiry_subset_cleanup expiry_subset_set expiry_subset_get
      expiry_subset_del expiry_subset_expire expiry_subset_flushall expiry_subset_init
      reachable_expiry_subset)

theorem expiry_keys_have_values_witness:
  "reachable after_expire \<and> expiry_subset after_expire \<and>
   store after_expire = [(''a'', ''1'')] \<and> expiry_times after_expire = [(''a'', 6)] \<and>
   expiry_subset (cleanup_expired_keys after_expire 7) \<and>
   store (cleanup_expired_keys after_expire 7) = [] \<and>
   expiry_subset (snd (process_command after_expire 7 ''GET a''))"
proof -
  have r: "reachable after_expire"
    unfolding after_expire_def by (intro reachable.command reachable.initial)
  have v: "store after_expire = [(''a'', ''1'')]" "expiry_times after_expire = [(''a'', 6)]"
    "store (cleanup_expired_keys after_expire 7) = []"
    by code_simp+
  from expiry_keys_have_values [of after_expire 7 "''GET a''" "[]"] r v show ?thesis by simp
qed

text \<open>
  Claim C10. For a key that is in the value map and expired, TTL and PTTL answer -2,
  EXISTS counts it as 0 (alone or among other keys), TYPE answers none and KEYS leaves it
  out of the listing, and all of them return the state unchanged; GET answers the null
  bulk reply and is the one that removes the key from both maps.
\<close>

theorem stale_key_read_paths:
  assumes "dict_has (store s) k" and "is_expired s now k"
  shows "cmd_ttl s now [k] = (integer_reply (- 2), s) \<and>
         cmd_pttl s now [k] = (integer_reply (- 2), s) \<and>
         cmd_exists s now [k] = (integer_reply 0, s) \<and>
         cmd_exists s now (a # args) = (integer_reply (exists_loop s now 0 (a # args)), s) \<and>
         exists_loop s now 0 (removeAll k (a # args)) = exists_loop s now 0 (a # args) \<and>
         cmd_type s now [k] = (''+none'' @ CRLF, s) \<and>
         cmd_keys s now args = (array_reply (current_keys s now), s) \<and>
         k \<notin> set (current_keys s now) \<and>
         cmd_get s now [k] = (null_bulk, purge k s) \<and>
         \<not> dict_has (store (purge k s)) k \<and>
         \<not> dict_has (expiry_times (purge k s)) k \<and>
         purge k s \<noteq> s"
proof -
  have nl: "\<not> live s now k" using assms(2) by (simp add: live_def)
  have ttl: "cmd_ttl s now [k] = (integer_reply (- 2), s)"
    using assms(2) by (simp add: cmd_ttl_def)
  have pttl: "cmd_pttl s now [k] = (integer_reply (- 2), s)"
    using assms(2) by (simp add: cmd_pttl_def)
  have ex1: "cmd_exists s now [k] = (integer_reply 0, s)"
    using assms(2) by (simp add: cmd_exists_def)
  have ex2: "cmd_exists s now (a # args) = (integer_reply (exists_loop s now 0 (a # args)), s)"
    by (simp add: cmd_exists_def)
  have ex3: "exists_loop s now 0 (removeAll k (a # args)) = exists_loop s now 0 (a # args)"
    by (rule exists_loop_skip [OF nl])
  have ty: "cmd_type s now [k] = (''+none'' @ CRLF, s)"
    using assms(2) by (simp add: cmd_type_def)
  have keys: "cmd_keys s now args = (array_reply (current_keys s now), s)"
    by (simp add: cmd_keys_def)
  have excl: "k \<notin> set (current_keys s now)"
    using assms(2) by (simp add: current_keys_def)
  have get: "cmd_get s now [k] = (null_bulk, purge k s)"
    using assms(2) by (simp add: cmd_get_def split: option.splits)
  have changed: "purge k s \<noteq> s"
    using assms(1) purge_removes(1) [of k s] by auto
  from ttl pttl ex1 ex2 ex3 ty keys excl get changed purge_removes [of k s]
  show ?thesis by simp
qed

theorem stale_key_read_paths_witness:
  "dict_has (store stale_server) ''k'' \<and> is_expired stale_server 10 ''k'' \<and>
   cmd_ttl stale_server 10 [''k''] = (integer_reply (- 2), stale_server) \<and>
   cmd_pttl stale_server 10 [''k''] = (integer_reply (- 2), stale_server) \<and>
   cmd_exists stale_server 10 [''k''] = (integer_reply 0, stale_server) \<and>
   cmd_type stale_server 10 [''k''] = (''+none'' @ CRLF, stale_server) \<and>
   cmd_keys stale_server 10 [''*''] = (''*0'' @ CRLF, stale_server) \<and>
   cmd_get stale_server 10 [''k''] = (null_bulk, purge ''k'' stale_server) \<and> purge ''k'' stale_server \<noteq> stale_server"
proof -
  have a: "dict_has (store stale_server) ''k''" by code_simp
  have b: "is_expired stale_server 10 ''k''" by code_simp
  have c: "array_reply (current_keys stale_server 10) = ''*0'' @ CRLF" by code_simp
  from stale_key_read_paths [OF a b, of "''k''" "[''*'']"] a b c show ?thesis by simp
qed

end
